theory Spec2Isabelle
  imports Complex_Main
begin

section \<open>Guest-list reconciliation (authenticate.py)\<close>

text \<open>
  A shallow embedding of \<^verbatim>\<open>src/authenticate.py\<close>: the payment extractor
  (\<^verbatim>\<open>parse_payments\<close>), the guest structure builder and the reconciliation
  loops of \<^verbatim>\<open>main\<close>.

  Conventions of the embedding.
  \<^item> A Python string is a \<^typ>\<open>string\<close>. HOL characters are 8-bit; the embedding is
    exact on ASCII text. Characters from 128 on are treated as caseless and as neither
    whitespace, letter nor digit (Python's Unicode tables say otherwise for a few of
    them).
  \<^item> The three input files and the CSV table are arguments: lists of lines, and a list
    of rows as \<^verbatim>\<open>csv.DictReader\<close> yields them.
  \<^item> An amount is a \<^typ>\<open>rat\<close>: the exact value of the decimal literal
    that the pattern captured. Python holds it in a binary double; the rounding of
    doubles is not part of the embedding.
  \<^item> \<^verbatim>\<open>payments\<close> and \<^verbatim>\<open>guest_structure\<close> are
    iterated, so they are association lists in insertion order with distinct keys;
    \<^verbatim>\<open>main_guests\<close> and \<^verbatim>\<open>all_guests\<close> are only looked
    up, so they are maps; \<^verbatim>\<open>whitelist\<close>, \<^verbatim>\<open>no_pay\<close> and
    \<^verbatim>\<open>accounted_for\<close> are sets.
\<close>

subsection \<open>Characters and strings\<close>

text \<open>\<^verbatim>\<open>str.isspace\<close>, also the class \<^verbatim>\<open>\s\<close> of \<^verbatim>\<open>re\<close>
  on a \<^verbatim>\<open>str\<close> pattern: tab, LF, VT, FF, CR, the separators 28 to 31, and space.\<close>

definition is_space :: "char \<Rightarrow> bool" where
  "is_space c = (let n = (of_char c :: nat) in (9 \<le> n \<and> n \<le> 13) \<or> (28 \<le> n \<and> n \<le> 32))"

definition is_upper :: "char \<Rightarrow> bool" where
  "is_upper c = (let n = (of_char c :: nat) in 65 \<le> n \<and> n \<le> 90)"

definition is_lower :: "char \<Rightarrow> bool" where
  "is_lower c = (let n = (of_char c :: nat) in 97 \<le> n \<and> n \<le> 122)"

text \<open>The class \<^verbatim>\<open>[A-Za-z]\<close>.\<close>

definition is_alpha :: "char \<Rightarrow> bool" where
  "is_alpha c = (is_upper c \<or> is_lower c)"

text \<open>The class \<^verbatim>\<open>\d\<close>.\<close>

definition is_digit :: "char \<Rightarrow> bool" where
  "is_digit c = (let n = (of_char c :: nat) in 48 \<le> n \<and> n \<le> 57)"

definition lower_char :: "char \<Rightarrow> char" where
  "lower_char c = (if is_upper c then char_of ((of_char c :: nat) + 32) else c)"

definition upper_char :: "char \<Rightarrow> char" where
  "upper_char c = (if is_lower c then char_of ((of_char c :: nat) - 32) else c)"

text \<open>\<^verbatim>\<open>str.lower()\<close>\<close>

definition lower :: "string \<Rightarrow> string" where
  "lower s = map lower_char s"

text \<open>\<^verbatim>\<open>str.strip()\<close>: whitespace removed at both ends.\<close>

definition strip :: "string \<Rightarrow> string" where
  "strip s = rev (dropWhile is_space (rev (dropWhile is_space s)))"

text \<open>\<^verbatim>\<open>str.split()\<close>: the maximal runs of non-whitespace characters, in order.
  \<open>cur\<close> is the token being read.\<close>

fun split_aux :: "string \<Rightarrow> string \<Rightarrow> string list" where
  "split_aux cur [] = (if cur = [] then [] else [cur])"
| "split_aux cur (c # cs) =
     (if is_space c then (if cur = [] then split_aux [] cs else cur # split_aux [] cs)
      else split_aux (cur @ [c]) cs)"

definition split :: "string \<Rightarrow> string list" where
  "split s = split_aux [] s"

text \<open>\<^verbatim>\<open>str.title()\<close>: a cased character is upper-cased when the character before it
  is not cased, lower-cased when it is. \<open>prev\<close> is \<^verbatim>\<open>previous_is_cased\<close>.\<close>

fun title_aux :: "bool \<Rightarrow> string \<Rightarrow> string" where
  "title_aux prev [] = []"
| "title_aux prev (c # cs) =
     (if is_lower c then (if prev then c else upper_char c) # title_aux True cs
      else if is_upper c then (if prev then lower_char c else c) # title_aux True cs
      else c # title_aux False cs)"

definition title :: "string \<Rightarrow> string" where
  "title s = title_aux False s"

text \<open>\<^verbatim>\<open>a in b\<close> on strings: \<open>a\<close> occurs in \<open>b\<close> as a contiguous run
  (the empty string occurs in every string).\<close>

definition starts_with :: "string \<Rightarrow> string \<Rightarrow> bool" where
  "starts_with b a = (take (length a) b = a)"

fun py_in :: "string \<Rightarrow> string \<Rightarrow> bool" where
  "py_in a [] = (a = [])"
| "py_in a (c # cs) = (starts_with (c # cs) a \<or> py_in a cs)"

text \<open>\<^verbatim>\<open>line.endswith(':')\<close>\<close>

definition ends_with_colon :: "string \<Rightarrow> bool" where
  "ends_with_colon s = (s \<noteq> [] \<and> last s = CHR '':'')"

text \<open>
  \<^verbatim>\<open>def normalize_name(name): return name.strip().lower()\<close>
\<close>

definition normalize_name :: "string \<Rightarrow> string" where
  "normalize_name name = lower (strip name)"

subsection \<open>The two payment patterns\<close>

text \<open>
  \<^verbatim>\<open>re.search(r'([A-Za-z][A-Za-z\s\']+?)\s+paid\s+you\s+\$(\d+\.?\d*)', line, re.IGNORECASE)\<close>
  and
  \<^verbatim>\<open>re.search(r'(?:BofA:\s+)?([A-Za-z][A-Za-z\s\']+?)\s+sent\s+you\s+\$(\d+\.?\d*)', line, re.IGNORECASE)\<close>.

  The matchers below follow the backtracking search of \<^verbatim>\<open>re\<close> for these two
  patterns: start positions from left to right; at a start, group 1 is one letter and
  then the least number (at least one) of letters, whitespace and apostrophes after
  which the rest of the pattern matches. In the rest every \<^verbatim>\<open>\s+\<close> is followed by
  a character that is not whitespace, so it can only take the whole run of whitespace;
  the greedy \<^verbatim>\<open>\d+\.?\d*\<close> ends the pattern, so its first try is the match.
  Each matcher returns what is left of the input, or the captured groups.
\<close>

text \<open>\<^verbatim>\<open>\s+\<close> before a character that is not whitespace.\<close>

definition ws_plus :: "string \<Rightarrow> string option" where
  "ws_plus s =
     (case s of [] \<Rightarrow> None
      | c # cs \<Rightarrow> if is_space c then Some (dropWhile is_space cs) else None)"

text \<open>A literal word under \<^verbatim>\<open>re.IGNORECASE\<close>.\<close>

definition lit_ci :: "string \<Rightarrow> string \<Rightarrow> string option" where
  "lit_ci w s =
     (if lower (take (length w) s) = lower w then Some (drop (length w) s) else None)"

text \<open>\<^verbatim>\<open>\$(\d+\.?\d*)\<close>: the result is group 2.\<close>

definition amount_match :: "string \<Rightarrow> string option" where
  "amount_match s =
     (case s of [] \<Rightarrow> None
      | c # cs \<Rightarrow>
          if c = CHR ''$'' then
            (let ip = takeWhile is_digit cs; r = dropWhile is_digit cs in
             if ip = [] then None
             else (case r of [] \<Rightarrow> Some ip
                   | d # fs \<Rightarrow>
                       if d = CHR ''.'' then Some (ip @ [d] @ takeWhile is_digit fs)
                       else Some ip))
          else None)"

text \<open>\<^verbatim>\<open>\s+paid\s+you\s+\$(\d+\.?\d*)\<close>, and the same with \<^verbatim>\<open>sent\<close>:
  \<open>w\<close> is the verb.\<close>

definition tail_match :: "string \<Rightarrow> string \<Rightarrow> string option" where
  "tail_match w s =
     Option.bind (ws_plus s) (\<lambda>s1.
     Option.bind (lit_ci w s1) (\<lambda>s2.
     Option.bind (ws_plus s2) (\<lambda>s3.
     Option.bind (lit_ci ''you'' s3) (\<lambda>s4.
     Option.bind (ws_plus s4) amount_match))))"

text \<open>A character of the class \<^verbatim>\<open>[A-Za-z\s\']\<close>.\<close>

definition is_name_char :: "char \<Rightarrow> bool" where
  "is_name_char c = (is_alpha c \<or> is_space c \<or> c = CHR 0x27)"

text \<open>The lazy \<^verbatim>\<open>[A-Za-z\s\']+?\<close> and the rest of the pattern: \<open>acc\<close> is
  group 1 so far; one more character is taken, then the rest is tried, and only when
  the rest fails is the group extended.\<close>

fun name_lazy :: "string \<Rightarrow> string \<Rightarrow> string \<Rightarrow> (string \<times> string) option" where
  "name_lazy w acc [] = None"
| "name_lazy w acc (c # cs) =
     (if is_name_char c then
        (case tail_match w cs of
           Some amt \<Rightarrow> Some (acc @ [c], amt)
         | None \<Rightarrow> name_lazy w (acc @ [c]) cs)
      else None)"

text \<open>\<^verbatim>\<open>([A-Za-z][A-Za-z\s\']+?)\<close> and the rest, tried at the head of \<open>s\<close>.\<close>

definition name_group :: "string \<Rightarrow> string \<Rightarrow> (string \<times> string) option" where
  "name_group w s =
     (case s of [] \<Rightarrow> None
      | c # cs \<Rightarrow> if is_alpha c then name_lazy w [c] cs else None)"

text \<open>The first pattern, searched from every start position, leftmost first.\<close>

fun search_paid :: "string \<Rightarrow> (string \<times> string) option" where
  "search_paid [] = None"
| "search_paid (c # cs) =
     (case name_group ''paid'' (c # cs) of
        Some r \<Rightarrow> Some r
      | None \<Rightarrow> search_paid cs)"

text \<open>The second pattern at one start position: the optional
  \<^verbatim>\<open>(?:BofA:\s+)?\<close> is tried first with the prefix, then without it.\<close>

definition sent_at :: "string \<Rightarrow> (string \<times> string) option" where
  "sent_at s =
     (case Option.bind (Option.bind (lit_ci ''BofA:'' s) ws_plus) (name_group ''sent'') of
        Some r \<Rightarrow> Some r
      | None \<Rightarrow> name_group ''sent'' s)"

fun search_sent :: "string \<Rightarrow> (string \<times> string) option" where
  "search_sent [] = None"
| "search_sent (c # cs) =
     (case sent_at (c # cs) of
        Some r \<Rightarrow> Some r
      | None \<Rightarrow> search_sent cs)"

subsection \<open>The payment extractor\<close>

text \<open>The shape of group 2: digits, then possibly a dot and digits.\<close>

definition amount_shape :: "string \<Rightarrow> bool" where
  "amount_shape y =
     (\<exists>ip fp. ip \<noteq> [] \<and> (\<forall>x \<in> set ip. is_digit x) \<and> (\<forall>x \<in> set fp. is_digit x) \<and>
        (y = ip \<or> y = ip @ CHR ''.'' # fp))"

text \<open>\<^verbatim>\<open>float(match.group(2))\<close> on a string of that shape: the integer part plus
  the fraction. (\<^verbatim>\<open>float\<close> raises on strings that are no number; group 2 never is
  one, see \<open>search_paid_shape\<close> and \<open>search_sent_shape\<close>, so the extractor has no
  error to return.)\<close>

definition digit_val :: "char \<Rightarrow> nat" where
  "digit_val c = of_char c - 48"

definition digits_val :: "string \<Rightarrow> nat" where
  "digits_val ds = foldl (\<lambda>n c. 10 * n + digit_val c) 0 ds"

definition py_float :: "string \<Rightarrow> rat" where
  "py_float s =
     (let ip = takeWhile is_digit s;
          fp = (case dropWhile is_digit s of [] \<Rightarrow> [] | d # fs \<Rightarrow> fs)
      in of_nat (digits_val ip) + of_nat (digits_val fp) / 10 ^ length fp)"

type_synonym ledger = "(string \<times> rat) list"

text \<open>
  \<^verbatim>\<open>
  if normalized_name in payments:
      payments[normalized_name] += amount
  else:
      payments[normalized_name] = amount
  \<close>
  A new key goes to the end of the dictionary; an old key keeps its place.
\<close>

definition ledger_add :: "ledger \<Rightarrow> string \<Rightarrow> rat \<Rightarrow> ledger" where
  "ledger_add payments normalized_name amount =
     (if normalized_name \<in> fst ` set payments
      then map (\<lambda>(n, v). if n = normalized_name then (n, v + amount) else (n, v)) payments
      else payments @ [(normalized_name, amount)])"

text \<open>The test of the header lines:
  \<^verbatim>\<open>line.endswith(':') and 'paid' not in line.lower() and 'sent' not in line.lower()\<close>\<close>

definition is_header :: "string \<Rightarrow> bool" where
  "is_header line =
     (ends_with_colon line \<and> \<not> py_in ''paid'' (lower line) \<and> \<not> py_in ''sent'' (lower line))"

text \<open>The body of the loop over the lines of \<^verbatim>\<open>parse_payments\<close>.\<close>

definition process_line :: "ledger \<Rightarrow> string \<Rightarrow> ledger" where
  "process_line payments raw =
     (let line = strip raw in
      if line = [] then payments
      else if is_header line then payments
      else (case search_paid line of
              Some (g1, g2) \<Rightarrow> ledger_add payments (normalize_name (strip g1)) (py_float g2)
            | None \<Rightarrow>
               (case search_sent line of
                  Some (g1, g2) \<Rightarrow> ledger_add payments (normalize_name (strip g1)) (py_float g2)
                | None \<Rightarrow> payments)))"

definition parse_payments :: "string list \<Rightarrow> ledger" where
  "parse_payments lines = foldl process_line [] lines"

subsection \<open>The guest structure builder\<close>

text \<open>A row of the guest table as \<^verbatim>\<open>csv.DictReader\<close> yields it: the cells of the
  columns \<^verbatim>\<open>Name\<close>, \<^verbatim>\<open>Status\<close> and \<^verbatim>\<open>Is Plus One Of\<close>.
  A cell is \<open>None\<close> when the row is too short to reach its column; the reader then
  stores Python's \<^verbatim>\<open>None\<close>, and \<^verbatim>\<open>.strip()\<close> on it raises. (A table
  whose header lacks one of the three columns, and a missing file, stop the run in the
  same way, before anything is printed; they are not inputs of the embedding.)\<close>

record csv_row =
  Name :: "string option"
  Status :: "string option"
  Is_Plus_One_Of :: "string option"

datatype error = AttributeError

text \<open>\<^verbatim>\<open>whitelist = {normalize_name(line.strip()) for line in f if line.strip()}\<close>,
  and the same for \<^verbatim>\<open>no_pay\<close>.\<close>

definition read_names :: "string list \<Rightarrow> string set" where
  "read_names lines =
     set (map (\<lambda>line. normalize_name (strip line)) (filter (\<lambda>line. strip line \<noteq> []) lines))"

type_synonym groups = "(string \<times> string list) list"

record guests =
  blacklist :: "string list"
  guest_structure :: groups
  main_guests :: "string \<rightharpoonup> string"
  all_guests :: "string \<rightharpoonup> string"

text \<open>\<^verbatim>\<open>guest_structure[main_guest_normalized].append(name)\<close> on a
  \<^verbatim>\<open>defaultdict(list)\<close>: a missing key is first inserted, at the end, with an
  empty list.\<close>

definition gs_append :: "groups \<Rightarrow> string \<Rightarrow> string \<Rightarrow> groups" where
  "gs_append gs k name =
     (if k \<in> fst ` set gs
      then map (\<lambda>(n, ps). if n = k then (n, ps @ [name]) else (n, ps)) gs
      else gs @ [(k, [name])])"

text \<open>
  \<^verbatim>\<open>
  if main_guest_normalized not in guest_structure:
      guest_structure[main_guest_normalized] = []
  \<close>
\<close>

definition gs_ensure :: "groups \<Rightarrow> string \<Rightarrow> groups" where
  "gs_ensure gs k = (if k \<in> fst ` set gs then gs else gs @ [(k, [])])"

text \<open>The body of the loop over the rows, after the three cells have been read and
  stripped (lines 79 to 101).\<close>

definition add_guest :: "string set \<Rightarrow> guests \<Rightarrow> string \<Rightarrow> string \<Rightarrow> string \<Rightarrow> guests" where
  "add_guest whitelist st name status plus_one_of =
     (if status \<noteq> ''Going'' then st
      else
        (let normalized_name = normalize_name name;
             st1 = st\<lparr>all_guests := (all_guests st)(normalized_name \<mapsto> name)\<rparr>;
             st2 = (if normalized_name \<notin> whitelist
                    then st1\<lparr>blacklist := blacklist st1 @ [name]\<rparr> else st1)
         in if plus_one_of \<noteq> []
            then st2\<lparr>guest_structure :=
                       gs_append (guest_structure st2) (normalize_name plus_one_of) name\<rparr>
            else st2\<lparr>main_guests := (main_guests st2)(normalize_name name \<mapsto> name),
                     guest_structure := gs_ensure (guest_structure st2) (normalize_name name)\<rparr>))"

text \<open>The loop over the rows (lines 74 to 101). The three cells are read before the
  status is looked at, so a row with a missing cell stops the run whatever its status.\<close>

fun read_guests :: "string set \<Rightarrow> guests \<Rightarrow> csv_row list \<Rightarrow> error + guests" where
  "read_guests whitelist st [] = Inr st"
| "read_guests whitelist st (row # rows) =
     (case (Name row, Status row, Is_Plus_One_Of row) of
        (Some n, Some s, Some p) \<Rightarrow>
          read_guests whitelist (add_guest whitelist st (strip n) (strip s) (strip p)) rows
      | _ \<Rightarrow> Inl AttributeError)"

definition no_guests :: guests where
  "no_guests = \<lparr>blacklist = [], guest_structure = [], main_guests = Map.empty,
                 all_guests = Map.empty\<rparr>"

subsection \<open>The reconciliation engine\<close>

text \<open>
  \<^verbatim>\<open>
  main_first_word = main_guest_normalized.split()[0] if main_guest_normalized.split() else main_guest_normalized
  \<close>
\<close>

definition first_word :: "string \<Rightarrow> string" where
  "first_word s = (case split s of [] \<Rightarrow> s | w # ws \<Rightarrow> w)"

text \<open>The condition of lines 128 to 132, and again of lines 174 to 178, with the guest's
  normalized name for \<open>a\<close> and the ledger key for \<open>b\<close>:
  \<^verbatim>\<open>
  (main_guest_normalized in payment_name or
   payment_name in main_guest_normalized or
   main_first_word == payment_first_word or
   main_first_word in payment_name or
   payment_first_word in main_guest_normalized)
  \<close>
\<close>

definition matches :: "string \<Rightarrow> string \<Rightarrow> bool" where
  "matches a b =
     (py_in a b \<or> py_in b a \<or> first_word a = first_word b \<or>
      py_in (first_word a) b \<or> py_in (first_word b) a)"

text \<open>The loop of lines 122 to 134: the amount of the first entry that matches, and the
  amount so far when none does.\<close>

fun fuzzy_scan :: "string \<Rightarrow> ledger \<Rightarrow> rat \<Rightarrow> rat" where
  "fuzzy_scan key [] payment_amount = payment_amount"
| "fuzzy_scan key ((payment_name, amount) # rest) payment_amount =
     (if matches key payment_name then amount else fuzzy_scan key rest payment_amount)"

text \<open>\<^verbatim>\<open>payments.get(main_guest_normalized, 0.0)\<close>\<close>

definition ledger_get :: "ledger \<Rightarrow> string \<Rightarrow> rat" where
  "ledger_get payments key = (case map_of payments key of Some v \<Rightarrow> v | None \<Rightarrow> 0)"

text \<open>Lines 118 to 134: the payment amount of a group.\<close>

definition resolve_payment :: "ledger \<Rightarrow> string \<Rightarrow> rat" where
  "resolve_payment payments key =
     (let payment_amount = ledger_get payments key in
      if payment_amount = 0 then fuzzy_scan key payments payment_amount
      else payment_amount)"

text \<open>\<^verbatim>\<open>int(x)\<close> on a number: rounding towards zero.\<close>

definition py_int :: "rat \<Rightarrow> int" where
  "py_int x = (if 0 \<le> x then \<lfloor>x\<rfloor> else \<lceil>x\<rceil>)"

definition PRICE_PER_GUEST :: rat where
  "PRICE_PER_GUEST = 5"

definition guests_covered :: "rat \<Rightarrow> int" where
  "guests_covered payment_amount = py_int (payment_amount / PRICE_PER_GUEST)"

text \<open>
  \<^verbatim>\<open>
  for i in range(min(guests_covered - 1, len(plus_ones))):
      plus_one_name = plus_ones[i]
      accounted_for.add(normalize_name(plus_one_name))
  \<close>
  The index stays below \<^verbatim>\<open>len(plus_ones)\<close>, so \<^verbatim>\<open>plus_ones[i]\<close> never raises.
\<close>

definition mark_plus_ones :: "string set \<Rightarrow> string list \<Rightarrow> int \<Rightarrow> string set" where
  "mark_plus_ones accounted_for plus_ones covered =
     foldl (\<lambda>acc i. insert (normalize_name (plus_ones ! i)) acc) accounted_for
       [0 ..< nat (min (covered - 1) (int (length plus_ones)))]"

text \<open>Lines 142 to 149.\<close>

definition mark_accounted :: "string set \<Rightarrow> string \<Rightarrow> string list \<Rightarrow> int \<Rightarrow> string set" where
  "mark_accounted accounted_for key plus_ones covered =
     (if covered > 0 then mark_plus_ones (insert key accounted_for) plus_ones covered
      else accounted_for)"

text \<open>Lines 155 to 158: the plus-ones of the group that are appended to
  \<^verbatim>\<open>unpaid\<close>.\<close>

fun unpaid_plus_ones :: "string set \<Rightarrow> string list \<Rightarrow> string list" where
  "unpaid_plus_ones accounted_for [] = []"
| "unpaid_plus_ones accounted_for (plus_one # rest) =
     (if normalize_name plus_one \<notin> accounted_for
      then plus_one # unpaid_plus_ones accounted_for rest
      else unpaid_plus_ones accounted_for rest)"

text \<open>Line 115:
  \<^verbatim>\<open>main_guests.get(k, all_guests.get(k, k.title()))\<close>\<close>

definition main_guest_name :: "guests \<Rightarrow> string \<Rightarrow> string" where
  "main_guest_name st key =
     (case main_guests st key of
        Some n \<Rightarrow> n
      | None \<Rightarrow> (case all_guests st key of Some n \<Rightarrow> n | None \<Rightarrow> title key))"

text \<open>What one group appends to \<^verbatim>\<open>unpaid\<close> (lines 152 to 158), given the set
  \<^verbatim>\<open>accounted_for\<close> after the marking.\<close>

definition group_unpaid :: "guests \<Rightarrow> string set \<Rightarrow> string \<Rightarrow> string list \<Rightarrow> string list" where
  "group_unpaid st accounted_for key plus_ones =
     (if key \<notin> accounted_for then [main_guest_name st key] else []) @
     unpaid_plus_ones accounted_for plus_ones"

text \<open>The body of the loop over \<^verbatim>\<open>guest_structure.items()\<close> (lines 114 to 158);
  the state is the pair of \<^verbatim>\<open>accounted_for\<close> and \<^verbatim>\<open>unpaid\<close>.\<close>

definition process_group ::
  "guests \<Rightarrow> ledger \<Rightarrow> string set \<times> string list \<Rightarrow> string \<times> string list \<Rightarrow> string set \<times> string list" where
  "process_group st payments state grp =
     (case state of (accounted_for, unpaid) \<Rightarrow>
      case grp of (key, plus_ones) \<Rightarrow>
        (let payment_amount = resolve_payment payments key;
             covered = guests_covered payment_amount;
             accounted_for' = mark_accounted accounted_for key plus_ones covered
         in (accounted_for', unpaid @ group_unpaid st accounted_for' key plus_ones)))"

definition reconcile :: "guests \<Rightarrow> ledger \<Rightarrow> string set \<times> string list" where
  "reconcile st payments = foldl (process_group st payments) ({}, []) (guest_structure st)"

text \<open>The inner loop of lines 171 to 180: does some ledger key match?\<close>

fun scan_keys :: "string \<Rightarrow> ledger \<Rightarrow> bool" where
  "scan_keys n [] = False"
| "scan_keys n ((payment_name, amount) # rest) =
     (if matches n payment_name then True else scan_keys n rest)"

text \<open>Lines 164 to 180: \<^verbatim>\<open>has_payment\<close> for a name of the list
  \<^verbatim>\<open>unpaid\<close>.\<close>

definition has_payment :: "ledger \<Rightarrow> string \<Rightarrow> bool" where
  "has_payment payments unpaid_guest =
     (let unpaid_normalized = normalize_name unpaid_guest in
      if unpaid_normalized \<in> fst ` set payments then True
      else scan_keys unpaid_normalized payments)"

text \<open>The loop of lines 163 to 185.\<close>

fun second_pass :: "ledger \<Rightarrow> string set \<Rightarrow> string list \<Rightarrow> string list" where
  "second_pass payments no_pay [] = []"
| "second_pass payments no_pay (unpaid_guest # rest) =
     (if \<not> has_payment payments unpaid_guest \<and> normalize_name unpaid_guest \<notin> no_pay
      then unpaid_guest # second_pass payments no_pay rest
      else second_pass payments no_pay rest)"

text \<open>\<^verbatim>\<open>main\<close>: the two lists that are printed, the blacklist and
  \<^verbatim>\<open>definitely_not_paid\<close>, or the error that stopped the run.\<close>

definition main_run ::
  "string list \<Rightarrow> string list \<Rightarrow> csv_row list \<Rightarrow> string list \<Rightarrow> error + (string list \<times> string list)" where
  "main_run whitelist_lines no_pay_lines rows payment_lines =
     (let whitelist = read_names whitelist_lines;
          no_pay = read_names no_pay_lines
      in case read_guests whitelist no_guests rows of
           Inl e \<Rightarrow> Inl e
         | Inr st \<Rightarrow>
            (let payments = parse_payments payment_lines;
                 unpaid = snd (reconcile st payments)
             in Inr (blacklist st, second_pass payments no_pay unpaid)))"

text \<open>A row of the table with its three cells present.\<close>

definition cells :: "string \<Rightarrow> string \<Rightarrow> string \<Rightarrow> csv_row" where
  "cells n s p = \<lparr>Name = Some n, Status = Some s, Is_Plus_One_Of = Some p\<rparr>"


text \<open>The invariant of the ledger: no entry is negative.\<close>

definition nonneg_ledger :: "ledger \<Rightarrow> bool" where
  "nonneg_ledger payments = (\<forall>e \<in> set payments. 0 \<le> snd e)"

section \<open>Strings: case, whitespace, normalized names\<close>

lemma is_space_lower_char [simp]: "is_space (lower_char c) = is_space c"
  by (auto simp: lower_char_def is_space_def is_upper_def Let_def)

lemma lower_char_idem [simp]: "lower_char (lower_char c) = lower_char c"
  by (auto simp: lower_char_def is_upper_def Let_def)



lemma lower_idem [simp]: "lower (lower s) = lower s"
  by (simp add: lower_def)



lemma dropWhile_space_lower: "dropWhile is_space (lower s) = lower (dropWhile is_space s)"
  by (simp add: lower_def dropWhile_map comp_def)

lemma strip_lower: "strip (lower s) = lower (strip s)"
proof -
  have "rev (lower s) = lower (rev s)" for s
    by (simp add: lower_def rev_map)
  then show ?thesis
    by (simp add: strip_def dropWhile_space_lower)
qed

lemma strip_Nil_or_ends:
  "strip s = [] \<or> (\<not> is_space (hd (strip s)) \<and> \<not> is_space (last (strip s)))"
proof (cases "strip s = []")
  case True
  then show ?thesis by simp
next
  case False
  let ?y = "dropWhile is_space s"
  let ?z = "dropWhile is_space (rev ?y)"
  have z: "?z \<noteq> []" using False by (simp add: strip_def)
  then have "\<not> is_space (hd ?z)" by (rule hd_dropWhile)
  then have l: "\<not> is_space (last (strip s))"
    using z by (simp add: strip_def last_rev)
  have "rev ?y = takeWhile is_space (rev ?y) @ ?z" by simp
  then have "?y = rev ?z @ rev (takeWhile is_space (rev ?y))"
    by (metis rev_append rev_rev_ident)
  then have "hd ?y = hd (rev ?z)"
    using z by (metis hd_append2 rev_is_Nil_conv)
  moreover have "?y \<noteq> []" using z by fastforce
  then have "\<not> is_space (hd ?y)" by (rule hd_dropWhile)
  ultimately have "\<not> is_space (hd (strip s))" by (simp add: strip_def)
  with l show ?thesis by simp
qed

lemma strip_fixed:
  assumes "s = [] \<or> (\<not> is_space (hd s) \<and> \<not> is_space (last s))"
  shows "strip s = s"
proof (cases "s = []")
  case True
  then show ?thesis by (simp add: strip_def)
next
  case False
  with assms have h: "\<not> is_space (hd s)" and l: "\<not> is_space (last s)" by auto
  from h False have a: "dropWhile is_space s = s"
    by (cases s) auto
  from l False have "\<not> is_space (hd (rev s))" by (simp add: hd_rev)
  with False have "dropWhile is_space (rev s) = rev s"
    by (cases "rev s") auto
  with a show ?thesis by (simp add: strip_def)
qed

lemma strip_idem [simp]: "strip (strip s) = strip s"
  by (rule strip_fixed) (rule strip_Nil_or_ends)

lemma normalize_name_idem [simp]: "normalize_name (normalize_name s) = normalize_name s"
  by (simp add: normalize_name_def strip_lower)


section \<open>The embedding: group 2 is a number, the keys are distinct\<close>

lemma amount_match_shape:
  assumes "amount_match s = Some y"
  shows "amount_shape y"
proof -
  from assms obtain cs where s: "s = CHR ''$'' # cs"
    by (auto simp: amount_match_def split: list.splits if_splits)
  let ?ip = "takeWhile is_digit cs"
  have ip: "\<forall>x \<in> set ?ip. is_digit x"
    by (auto dest: set_takeWhileD)
  from assms s have nz: "?ip \<noteq> []"
    by (auto simp: amount_match_def Let_def split: if_splits)
  show ?thesis
  proof (cases "dropWhile is_digit cs")
    case Nil
    with assms s nz have "y = ?ip"
      by (simp add: amount_match_def Let_def)
    with ip nz show ?thesis
      unfolding amount_shape_def by (intro exI [of _ ?ip] exI [of _ "[]"]) simp
  next
    case (Cons d fs)
    let ?fp = "takeWhile is_digit fs"
    have fp: "\<forall>x \<in> set ?fp. is_digit x"
      by (auto dest: set_takeWhileD)
    from assms s nz Cons have "y = ?ip \<or> y = ?ip @ CHR ''.'' # ?fp"
      by (auto simp: amount_match_def Let_def split: if_splits)
    with ip fp nz show ?thesis
      unfolding amount_shape_def by (intro exI [of _ ?ip] exI [of _ ?fp]) simp
  qed
qed

lemma tail_match_shape: "tail_match w s = Some y \<Longrightarrow> amount_shape y"
  unfolding tail_match_def bind_eq_Some_conv by (blast intro: amount_match_shape)

lemma name_lazy_shape: "name_lazy w acc s = Some (g1, g2) \<Longrightarrow> amount_shape g2"
  by (induction s arbitrary: acc)
    (auto split: if_splits option.splits intro: tail_match_shape)

lemma name_group_shape: "name_group w s = Some (g1, g2) \<Longrightarrow> amount_shape g2"
  by (auto simp: name_group_def split: list.splits if_splits intro: name_lazy_shape)

lemma search_paid_shape: "search_paid s = Some (g1, g2) \<Longrightarrow> amount_shape g2"
  by (induction s) (auto split: option.splits intro: name_group_shape)

lemma sent_at_shape: "sent_at s = Some (g1, g2) \<Longrightarrow> amount_shape g2"
  by (auto simp: sent_at_def bind_eq_Some_conv split: option.splits intro: name_group_shape)

lemma search_sent_shape: "search_sent s = Some (g1, g2) \<Longrightarrow> amount_shape g2"
  by (induction s) (auto split: option.splits intro: sent_at_shape)

lemma keys_ledger_add:
  "map fst (ledger_add p k a) = (if k \<in> fst ` set p then map fst p else map fst p @ [k])"
  by (auto simp: ledger_add_def)

lemma distinct_ledger_add:
  "distinct (map fst p) \<Longrightarrow> distinct (map fst (ledger_add p k a))"
  by (auto simp: keys_ledger_add)

lemma distinct_process_line:
  "distinct (map fst p) \<Longrightarrow> distinct (map fst (process_line p line))"
  by (auto simp: process_line_def Let_def distinct_ledger_add split: option.splits)

lemma distinct_parse_payments: "distinct (map fst (parse_payments lines))"
proof -
  have "distinct (map fst p) \<Longrightarrow> distinct (map fst (foldl process_line p lines))" for p
    by (induction lines arbitrary: p) (simp_all add: distinct_process_line)
  from this [of "[]"] show ?thesis
    by (simp add: parse_payments_def)
qed

lemma keys_gs_append:
  "map fst (gs_append gs k n) = (if k \<in> fst ` set gs then map fst gs else map fst gs @ [k])"
  by (auto simp: gs_append_def)

lemma keys_gs_ensure:
  "map fst (gs_ensure gs k) = (if k \<in> fst ` set gs then map fst gs else map fst gs @ [k])"
  by (auto simp: gs_ensure_def)

lemma distinct_add_guest:
  "distinct (map fst (guest_structure st)) \<Longrightarrow>
   distinct (map fst (guest_structure (add_guest wl st n s p)))"
  by (auto simp: add_guest_def Let_def keys_gs_append keys_gs_ensure)

lemma distinct_read_guests:
  "distinct (map fst (guest_structure st)) \<Longrightarrow> read_guests wl st rows = Inr st' \<Longrightarrow>
   distinct (map fst (guest_structure st'))"
  by (induction rows arbitrary: st) (auto split: option.splits intro: distinct_add_guest)

section \<open>The ledger and the two scans\<close>

lemma py_in_refl: "py_in a a"
  by (cases a) (simp_all add: starts_with_def)

lemma fuzzy_scan_none:
  "\<forall>e \<in> set payments. \<not> matches key (fst e) \<Longrightarrow> fuzzy_scan key payments amt = amt"
  by (induction payments) auto

lemma ledger_get_absent: "key \<notin> fst ` set payments \<Longrightarrow> ledger_get payments key = 0"
  by (simp add: ledger_get_def map_of_eq_None_iff [THEN iffD2])

lemma second_pass_set:
  "set (second_pass payments no_pay unpaid) =
     {g \<in> set unpaid. \<not> has_payment payments g \<and> normalize_name g \<notin> no_pay}"
  by (induction unpaid) auto




section \<open>Claims\<close>

subsection \<open>Covered guests are marked (C1)\<close>







subsection \<open>A main guest without payment (C2)\<close>















subsection \<open>The second pass and the exempt guests (C3)\<close>

text \<open>
  Claim C3. Whatever the four inputs are, a name whose normalized form is in the set read
  from \<^verbatim>\<open>no_pay.txt\<close> is not in the list \<^verbatim>\<open>definitely_not_paid\<close> of a
  run that reaches its report; the payment lines are arbitrary.
\<close>

theorem no_pay_never_reported:
  assumes "main_run whitelist_lines no_pay_lines rows payment_lines = Inr (bl, dnp)"
    and "normalize_name g \<in> read_names no_pay_lines"
  shows "g \<notin> set dnp"
  using assms
  by (auto simp: main_run_def Let_def second_pass_set split: sum.splits)

theorem no_pay_never_reported_witness:
  "main_run [] [''Bob''] [cells ''Bob'' ''Going'' [], cells ''Cy'' ''Going'' []] []
     = Inr ([''Bob'', ''Cy''], [''Cy''])
   \<and> normalize_name ''Bob'' \<in> read_names [''Bob'']
   \<and> ''Bob'' \<notin> set [''Cy'']"
proof -
  have r: "main_run [] [''Bob''] [cells ''Bob'' ''Going'' [], cells ''Cy'' ''Going'' []] []
     = Inr ([''Bob'', ''Cy''], [''Cy''])"
    by code_simp
  have n: "normalize_name ''Bob'' \<in> read_names [''Bob'']"
    by code_simp
  show ?thesis
    by (intro conjI) (rule r, rule n, rule no_pay_never_reported [OF r n])
qed

subsection \<open>The blacklist (C4)\<close>





subsection \<open>Payment lines (C5)\<close>


lemma alpha_not_dollar: "is_alpha c \<Longrightarrow> c \<noteq> CHR ''$''"
  by (auto simp: is_alpha_def is_upper_def is_lower_def Let_def)

lemma space_not_dollar: "is_space c \<Longrightarrow> c \<noteq> CHR ''$''"
  by (auto simp: is_space_def Let_def)

lemma name_char_not_dollar: "is_name_char c \<Longrightarrow> c \<noteq> CHR ''$''"
  using alpha_not_dollar space_not_dollar by (auto simp: is_name_char_def)

lemma name_char_not_colon: "is_name_char c \<Longrightarrow> c \<noteq> CHR '':''"
  by (auto simp: is_name_char_def is_alpha_def is_upper_def is_lower_def is_space_def Let_def)










lemma split_aux_spaces:
  "\<forall>x \<in> set a. is_space x \<Longrightarrow> split_aux [] (a @ b) = split_aux [] b"
  by (induction a) auto


lemma split_spaces: "\<forall>x \<in> set a. is_space x \<Longrightarrow> split (a @ b) = split b"
  by (simp add: split_def split_aux_spaces)



lemma split_Nil [simp]: "split [] = []"
  by (simp add: split_def)
























lemma search_paid_line:
  assumes "name_group ''paid'' (c # r) = Some g"
  shows "search_paid (c # r) = Some g"
  using assms by simp




















subsection \<open>The resolved payment of a group (C6)\<close>

lemma fuzzy_scan_first:
  "i < length payments \<Longrightarrow> matches key (fst (payments ! i)) \<Longrightarrow>
   (\<forall>j<i. \<not> matches key (fst (payments ! j))) \<Longrightarrow>
   fuzzy_scan key payments amt = snd (payments ! i)"
proof (induction payments arbitrary: i)
  case Nil
  then show ?case by simp
next
  case (Cons e rest)
  obtain pn a where e: "e = (pn, a)" by (cases e)
  show ?case
  proof (cases i)
    case 0
    with Cons.prems e show ?thesis by simp
  next
    case (Suc i')
    with Cons.prems have "\<not> matches key pn"
      using e by fastforce
    moreover have "fuzzy_scan key rest amt = snd (rest ! i')"
      using Cons.prems Suc by (intro Cons.IH) auto
    ultimately show ?thesis
      using e Suc by simp
  qed
qed

lemma ledger_get_present:
  "distinct (map fst payments) \<Longrightarrow> (key, v) \<in> set payments \<Longrightarrow> ledger_get payments key = v"
  by (simp add: ledger_get_def)

text \<open>
  Claim C6. The exact lookup gives 0 for a key that the ledger does not have, and the
  amount stored under the key otherwise. When the exact amount is not 0 it is the
  resolved amount, whatever the other entries are (the scan has no part in it). When it
  is 0, the resolved amount is the amount of the first entry, in the order of the
  ledger, whose key matches the group key, and 0 when no key matches.
\<close>

theorem resolve_payment_exact_then_first_match:
  "(key \<notin> fst ` set payments \<longrightarrow> ledger_get payments key = 0)
   \<and> (distinct (map fst payments) \<and> (key, v) \<in> set payments \<longrightarrow> ledger_get payments key = v)
   \<and> (ledger_get payments key \<noteq> 0 \<longrightarrow> resolve_payment payments key = ledger_get payments key)
   \<and> (ledger_get payments key = 0 \<and> i < length payments \<and> matches key (fst (payments ! i))
        \<and> (\<forall>j<i. \<not> matches key (fst (payments ! j)))
      \<longrightarrow> resolve_payment payments key = snd (payments ! i))
   \<and> (ledger_get payments key = 0 \<and> (\<forall>e \<in> set payments. \<not> matches key (fst e))
      \<longrightarrow> resolve_payment payments key = 0)"
  using fuzzy_scan_first [of i payments key 0] fuzzy_scan_none [of payments key 0]
  by (simp add: ledger_get_absent ledger_get_present resolve_payment_def)

theorem resolve_payment_exact_then_first_match_witness:
  "resolve_payment [(''bob'', 5), (''alice smith'', 10), (''alice jones'', 15)] ''alice'' = 10
   \<and> resolve_payment [(''bob'', 5), (''alice smith'', 10), (''alice jones'', 15)] ''bob'' = 5
   \<and> resolve_payment [(''bob'', 5), (''alice smith'', 10), (''alice jones'', 15)] ''zed'' = 0"
proof -
  let ?p = "[(''bob'', 5), (''alice smith'', 10), (''alice jones'', 15 :: rat)]"
  note a = resolve_payment_exact_then_first_match [of "''alice''" ?p 0 1]
  note b = resolve_payment_exact_then_first_match [of "''bob''" ?p 5 0]
  note z = resolve_payment_exact_then_first_match [of "''zed''" ?p 0 0]
  have a0: "ledger_get ?p ''alice'' = 0"
    by (rule a [THEN conjunct1, THEN mp]) simp
  have a1: "matches ''alice'' ''alice smith''" by code_simp
  have a2: "\<not> matches ''alice'' ''bob''" by code_simp
  have ra: "resolve_payment ?p ''alice'' = snd (?p ! 1)"
    by (rule a [THEN conjunct2, THEN conjunct2, THEN conjunct2, THEN conjunct1, THEN mp])
      (simp add: a0 a1 a2)
  have b0: "ledger_get ?p ''bob'' = 5"
    by (rule b [THEN conjunct2, THEN conjunct1, THEN mp]) simp
  have rb: "resolve_payment ?p ''bob'' = ledger_get ?p ''bob''"
    by (rule b [THEN conjunct2, THEN conjunct2, THEN conjunct1, THEN mp]) (simp add: b0)
  have z0: "ledger_get ?p ''zed'' = 0"
    by (rule z [THEN conjunct1, THEN mp]) simp
  have z1: "\<not> matches ''zed'' ''bob''" "\<not> matches ''zed'' ''alice smith''"
    "\<not> matches ''zed'' ''alice jones''"
    by code_simp+
  have rz: "resolve_payment ?p ''zed'' = 0"
    by (rule z [THEN conjunct2, THEN conjunct2, THEN conjunct2, THEN conjunct2, THEN mp])
      (simp add: z0 z1)
  from ra rb b0 rz show ?thesis by simp
qed

subsection \<open>The match between two names (C7)\<close>

text \<open>
  Claim C7. The condition of the two scans holds for \<open>(a, b)\<close> exactly when it holds for
  \<open>(b, a)\<close>; it is the predicate of the specification (whose first alternative,
  equality, is a case of containment); and it is not transitive: \<^verbatim>\<open>ann\<close> matches
  \<^verbatim>\<open>ann bob\<close>, which matches \<^verbatim>\<open>bob\<close>, and \<^verbatim>\<open>ann\<close> does not match
  \<^verbatim>\<open>bob\<close>.
\<close>

theorem matches_symmetric_not_transitive:
  "matches a b = matches b a
   \<and> matches a b = (a = b \<or> py_in a b \<or> py_in b a \<or> first_word a = first_word b
        \<or> py_in (first_word a) b \<or> py_in (first_word b) a)
   \<and> (\<exists>x y z. matches x y \<and> matches y z \<and> \<not> matches x z)"
proof (intro conjI)
  show "matches a b = matches b a"
    by (auto simp: matches_def)
  show "matches a b = (a = b \<or> py_in a b \<or> py_in b a \<or> first_word a = first_word b
        \<or> py_in (first_word a) b \<or> py_in (first_word b) a)"
    using py_in_refl by (auto simp: matches_def)
  have "matches ''ann'' ''ann bob''" "matches ''ann bob'' ''bob''" "\<not> matches ''ann'' ''bob''"
    by code_simp+
  then show "\<exists>x y z. matches x y \<and> matches y z \<and> \<not> matches x z"
    by blast
qed

subsection \<open>Header lines (C8)\<close>

text \<open>
  Claim C8. A line that, stripped, ends with a colon and has neither \<^verbatim>\<open>paid\<close> nor
  \<^verbatim>\<open>sent\<close> in its lower-cased text leaves the ledger as it is: the loop body
  returns the ledger it was given, and the extractor's result is the same as without
  the line.
\<close>

theorem header_line_ignored:
  assumes "ends_with_colon (strip line)"
    and "\<not> py_in ''paid'' (lower (strip line))"
    and "\<not> py_in ''sent'' (lower (strip line))"
  shows "process_line payments line = payments
         \<and> parse_payments (before @ line # after) = parse_payments (before @ after)"
proof -
  have "process_line p line = p" for p
    using assms by (simp add: process_line_def is_header_def Let_def)
  then show ?thesis
    by (simp add: parse_payments_def)
qed

theorem header_line_ignored_witness:
  "ends_with_colon (strip ''86753: '')
   \<and> \<not> py_in ''paid'' (lower (strip ''86753: ''))
   \<and> \<not> py_in ''sent'' (lower (strip ''86753: ''))
   \<and> process_line [(''al'', 5)] ''86753: '' = [(''al'', 5)]
   \<and> parse_payments ([''Al paid you $5''] @ ''86753: '' # [''Al paid you $1''])
        = parse_payments ([''Al paid you $5''] @ [''Al paid you $1''])"
proof -
  have a: "ends_with_colon (strip ''86753: '')" by code_simp
  have b: "\<not> py_in ''paid'' (lower (strip ''86753: ''))" by code_simp
  have c: "\<not> py_in ''sent'' (lower (strip ''86753: ''))" by code_simp
  note h = header_line_ignored [OF a b c]
  show ?thesis
    by (intro conjI) (rule a, rule b, rule c, rule conjunct1 [OF h], rule conjunct2 [OF h])
qed

subsection \<open>The ledger holds no negative amount (C9)\<close>

lemma py_float_nonneg: "0 \<le> py_float s"
  by (simp add: py_float_def Let_def)

lemma ledger_add_nonneg:
  assumes "nonneg_ledger payments" and "0 \<le> a"
  shows "nonneg_ledger (ledger_add payments k a)"
  using assms by (auto simp: ledger_add_def nonneg_ledger_def)

lemma process_line_nonneg:
  assumes "nonneg_ledger payments"
  shows "nonneg_ledger (process_line payments line)"
  using assms ledger_add_nonneg [OF assms py_float_nonneg]
  by (simp add: process_line_def Let_def split: option.split prod.split)

lemma foldl_process_line_nonneg:
  "nonneg_ledger payments \<Longrightarrow> nonneg_ledger (foldl process_line payments lines)"
  by (induction lines arbitrary: payments) (simp_all add: process_line_nonneg)

text \<open>
  Claim C9. After any number \<open>n\<close> of lines has been processed, every value of the
  ledger is at least 0; with \<open>n\<close> the number of lines this is the returned ledger. (The
  step is \<open>process_line_nonneg\<close>: a line adds \<open>py_float\<close> of group 2, which is at least 0
  by \<open>py_float_nonneg\<close>, to a ledger without negative values.)
\<close>

theorem ledger_values_nonneg:
  assumes "(k, v) \<in> set (parse_payments (take n lines))"
  shows "0 \<le> v"
  using assms foldl_process_line_nonneg [of "[]" "take n lines"]
  by (force simp: parse_payments_def nonneg_ledger_def)

theorem ledger_values_nonneg_witness:
  "(''al'', 15 / 2) \<in> set (parse_payments (take 2 [''Al paid you $5'', ''al sent you $2.5'', ''x'']))
   \<and> (0::rat) \<le> 15 / 2"
proof -
  have h: "(''al'', 15 / 2) \<in> set (parse_payments (take 2 [''Al paid you $5'', ''al sent you $2.5'', ''x'']))"
    by code_simp
  show ?thesis
    by (intro conjI) (rule h, rule ledger_values_nonneg [OF h])
qed

subsection \<open>Repeated names in the reports (C10)\<close>

text \<open>
  Claim C10. Two rows \<^verbatim>\<open>Zed\<close> with status \<^verbatim>\<open>Going\<close>, not in the whitelist: the
  blacklist has \<^verbatim>\<open>Zed\<close> twice. \<^verbatim>\<open>Bob\<close> as the plus-one of \<^verbatim>\<open>Al\<close> and of
  \<^verbatim>\<open>Cy\<close>, who paid for themselves only: \<^verbatim>\<open>definitely_not_paid\<close> has
  \<^verbatim>\<open>Bob\<close> twice.
\<close>

theorem duplicates_in_reports:
  "main_run [''al''] [] [cells ''Zed'' ''Going'' [], cells ''Zed'' ''Going'' []] []
     = Inr ([''Zed'', ''Zed''], [''Zed''])
   \<and> main_run [] [] [cells ''Al'' ''Going'' [], cells ''Cy'' ''Going'' [],
         cells ''Bob'' ''Going'' ''Al'', cells ''Bob'' ''Going'' ''Cy'']
         [''Al paid you $5'', ''Cy paid you $5'']
     = Inr ([''Al'', ''Cy'', ''Bob'', ''Bob''], [''Bob'', ''Bob''])"
  by code_simp

end
